theory Spec2Isabelle
  imports Complex_Main
begin

section \<open>Blog CMS front-end script (static/js/main.js)\<close>

text \<open>
  The script is a collection of initialiser routines run once on DOMContentLoaded, the
  event handlers they register, and three utility functions (\<open>timeAgo\<close>,
  \<open>debounce\<close>, \<open>copyToClipboard\<close>). Each is embedded below as a HOL function over
  an explicit page state; the browser interfaces that the script calls (timers, the
  clipboard, the DOM) are modelled by the operations the script uses of them.
\<close>

subsection \<open>Strings and numbers\<close>

text \<open>
  A JavaScript string is a sequence of UTF-16 code units; \<open>length\<close> counts code units,
  as the \<open>length\<close> property does. Literals of the source are written \<open>js ''...''\<close>.
\<close>

type_synonym jstring = "nat list"

definition js :: "string \<Rightarrow> jstring" where
  "js s = map of_char s"

text \<open>
  A template literal renders an integer below \<open>10^21\<close> in plain decimal digits, with a
  minus sign when negative. Every number the script renders is a count of minutes, hours,
  days or code units, far below that bound.
\<close>

fun digits :: "nat \<Rightarrow> jstring" where
  "digits n = (if n < 10 then [48 + n] else digits (n div 10) @ [48 + n mod 10])"

declare digits.simps [simp del]

definition numToString :: "int \<Rightarrow> jstring" where
  "numToString i = (if i < 0 then 45 # digits (nat (- i)) else digits (nat i))"

subsection \<open>timeAgo\<close>

text \<open>
  \<open>new Date(date)\<close> yields a time value, an integral number of milliseconds since the
  epoch of magnitude at most \<open>8.64 * 10^15\<close>, or an invalid date, whose time value is NaN.
  The first is \<open>Some\<close>, the second \<open>None\<close>. On time values of that magnitude the
  double-precision quotients \<open>diffMs / 1000\<close>, \<open>diffSecs / 60\<close>, ... are within less
  than \<open>1/1000\<close> of the exact ones, so \<open>Math.floor\<close> of each is integer floor division.
  With NaN every comparison is false and the function falls through to
  \<open>toLocaleDateString\<close>, which renders an invalid date as the text "Invalid Date".

  The locale's date rendering is a parameter \<open>toLocaleDateString\<close>; the current time
  \<open>now\<close>, which the source reads with \<open>new Date()\<close>, is a parameter too.
\<close>

definition plural :: "int \<Rightarrow> jstring" where
  "plural n = (if n > 1 then js ''s'' else js '''')"

definition timeAgo :: "(int \<Rightarrow> jstring) \<Rightarrow> int \<Rightarrow> int option \<Rightarrow> jstring" where
  "timeAgo toLocaleDateString now date =
     (case date of
        None \<Rightarrow> js ''Invalid Date''
      | Some past \<Rightarrow>
          (let diffMs = now - past;
               diffSecs = diffMs div 1000;
               diffMins = diffSecs div 60;
               diffHours = diffMins div 60;
               diffDays = diffHours div 24
           in if diffSecs < 60 then js ''just now''
              else if diffMins < 60 then
                numToString diffMins @ js '' minute'' @ plural diffMins @ js '' ago''
              else if diffHours < 24 then
                numToString diffHours @ js '' hour'' @ plural diffHours @ js '' ago''
              else if diffDays < 7 then
                numToString diffDays @ js '' day'' @ plural diffDays @ js '' ago''
              else toLocaleDateString past))"

subsection \<open>debounce\<close>




















subsection \<open>copyToClipboard\<close>

text \<open>
  Exceptions are values: a computation returns \<open>Inl\<close> of the error it throws or
  \<open>Inr\<close> of its result. For an \<open>async\<close> function \<open>Inl\<close> is a returned promise that
  rejects and \<open>Inr\<close> one that resolves.
\<close>

datatype js_error =
  TypeError | ReferenceError | HierarchyRequestError | DOMException jstring

datatype console_entry = ConsoleLog jstring | ConsoleError jstring js_error

text \<open>
  \<open>navigator.clipboard\<close> is undefined outside a secure context, and reading
  \<open>writeText\<close> of it throws a TypeError. Where it is defined, \<open>writeText\<close> returns
  a promise that resolves (\<open>None\<close>) or rejects with an error. \<open>written\<close> records each
  call of \<open>writeText\<close>.
\<close>

datatype clipboard = NoClipboard | Clipboard "jstring \<Rightarrow> js_error option"

record world =
  console :: "console_entry list"
  written :: "jstring list"

definition writeText :: "clipboard \<Rightarrow> jstring \<Rightarrow> world \<Rightarrow> (js_error + unit) \<times> world" where
  "writeText nav text w =
     (case nav of
        NoClipboard \<Rightarrow> (Inl TypeError, w)
      | Clipboard settle \<Rightarrow>
          (case settle text of
             Some err \<Rightarrow> (Inl err, w\<lparr>written := written w @ [text]\<rparr>)
           | None \<Rightarrow> (Inr (), w\<lparr>written := written w @ [text]\<rparr>)))"

definition console_log :: "jstring \<Rightarrow> world \<Rightarrow> world" where
  "console_log m w = w\<lparr>console := console w @ [ConsoleLog m]\<rparr>"

definition console_error :: "jstring \<Rightarrow> js_error \<Rightarrow> world \<Rightarrow> world" where
  "console_error m err w = w\<lparr>console := console w @ [ConsoleError m err]\<rparr>"

text \<open>The \<open>try\<close> block, then the \<open>catch\<close> block on the error the \<open>try\<close> block threw.\<close>

definition copyToClipboard :: "clipboard \<Rightarrow> jstring \<Rightarrow> world \<Rightarrow> (js_error + unit) \<times> world" where
  "copyToClipboard nav text w =
     (case (case writeText nav text w of
              (Inl err, w1) \<Rightarrow> (Inl err, w1)
            | (Inr u, w1) \<Rightarrow> (Inr (), console_log (js ''Copied to clipboard'') w1)) of
        (Inl err, w2) \<Rightarrow> (Inr (), console_error (js ''Failed to copy:'') err w2)
      | (Inr u, w2) \<Rightarrow> (Inr (), w2))"

subsection \<open>The document\<close>

text \<open>
  A node is known by its handle. The document is the forest of the nodes below the
  document node, in document order: \<open>El r ks\<close> is an element with handle \<open>r\<close> and children
  \<open>ks\<close>, \<open>Txt r\<close> a text node. What a node carries (an element's tag name, attributes,
  class list, inline style and \<open>value\<close>; a text node's data, under \<open>val\<close>) is kept by
  handle in \<open>objs\<close>, so that it stays readable when the node is out of the document.
  Handles in a document are distinct, and the operations find a node by its handle.
\<close>

type_synonym ref = nat

datatype tree = Txt ref | El ref "tree list"

record props =
  tagName :: string
  attrs :: "string \<rightharpoonup> jstring"
  classList :: "jstring list"
  style :: "string \<rightharpoonup> string"
  val :: jstring

fun ref_of :: "tree \<Rightarrow> ref" where
  "ref_of (Txt r) = r"
| "ref_of (El r ks) = r"

fun is_el :: "tree \<Rightarrow> bool" where
  "is_el (Txt r) = False"
| "is_el (El r ks) = True"

text \<open>All nodes of a forest, in document order.\<close>

fun nodes :: "tree list \<Rightarrow> tree list" where
  "nodes [] = []"
| "nodes (Txt r # ts) = Txt r # nodes ts"
| "nodes (El r ks # ts) = El r ks # nodes ks @ nodes ts"

text \<open>The siblings that follow node \<open>r\<close>; \<open>None\<close> when \<open>r\<close> is not in the forest.\<close>

fun following :: "ref \<Rightarrow> tree list \<Rightarrow> tree list option" where
  "following r [] = None"
| "following r (Txt q # ts) = (if q = r then Some ts else following r ts)"
| "following r (El q ks # ts) =
     (if q = r then Some ts
      else case following r ks of Some fs \<Rightarrow> Some fs | None \<Rightarrow> following r ts)"

text \<open>
  The ancestors of node \<open>r\<close> that are elements, nearest first: \<open>None\<close> when \<open>r\<close> is not in
  the forest, \<open>Some []\<close> when its parent is the document node.
\<close>

fun ancestors :: "ref \<Rightarrow> tree list \<Rightarrow> ref list option" where
  "ancestors r [] = None"
| "ancestors r (Txt q # ts) = (if q = r then Some [] else ancestors r ts)"
| "ancestors r (El q ks # ts) =
     (if q = r then Some []
      else case ancestors r ks of Some as \<Rightarrow> Some (as @ [q]) | None \<Rightarrow> ancestors r ts)"

text \<open>The children of element \<open>r\<close>.\<close>

fun kids_of :: "ref \<Rightarrow> tree list \<Rightarrow> tree list option" where
  "kids_of r [] = None"
| "kids_of r (Txt q # ts) = kids_of r ts"
| "kids_of r (El q ks # ts) =
     (if q = r then Some ks
      else case kids_of r ks of Some cs \<Rightarrow> Some cs | None \<Rightarrow> kids_of r ts)"

text \<open>\<open>insert_after r new\<close> puts \<open>new\<close> right after node \<open>r\<close>, among its siblings.\<close>

fun insert_after :: "ref \<Rightarrow> tree \<Rightarrow> tree list \<Rightarrow> tree list" where
  "insert_after r new [] = []"
| "insert_after r new (Txt q # ts) =
     (if q = r then Txt q # new # insert_after r new ts else Txt q # insert_after r new ts)"
| "insert_after r new (El q ks # ts) =
     (if q = r then El q (insert_after r new ks) # new # insert_after r new ts
      else El q (insert_after r new ks) # insert_after r new ts)"

text \<open>\<open>map_kids r f\<close> replaces the children \<open>ks\<close> of element \<open>r\<close> by \<open>f ks\<close>.\<close>

fun map_kids :: "ref \<Rightarrow> (tree list \<Rightarrow> tree list) \<Rightarrow> tree list \<Rightarrow> tree list" where
  "map_kids r f [] = []"
| "map_kids r f (Txt q # ts) = Txt q # map_kids r f ts"
| "map_kids r f (El q ks # ts) =
     (if q = r then El q (f ks) else El q (map_kids r f ks)) # map_kids r f ts"

text \<open>\<open>remove_node r\<close> takes node \<open>r\<close>, with what is below it, out of the forest.\<close>

fun remove_node :: "ref \<Rightarrow> tree list \<Rightarrow> tree list" where
  "remove_node r [] = []"
| "remove_node r (Txt q # ts) = (if q = r then remove_node r ts else Txt q # remove_node r ts)"
| "remove_node r (El q ks # ts) =
     (if q = r then remove_node r ts else El q (remove_node r ks) # remove_node r ts)"

subsection \<open>Selectors\<close>

text \<open>
  The selectors of the script are lists of alternatives (separated by commas in the
  source), each a compound of simple selectors that must all hold of an element.
\<close>

datatype simple =
  Tag string | Class jstring | AttrEq string jstring | AttrHas string jstring | Neg simple

type_synonym selector = "simple list list"

fun startsWith :: "jstring \<Rightarrow> jstring \<Rightarrow> bool" where
  "startsWith s [] = True"
| "startsWith [] (p # ps) = False"
| "startsWith (c # s) (p # ps) = (c = p \<and> startsWith s ps)"

fun contains :: "jstring \<Rightarrow> jstring \<Rightarrow> bool" where
  "contains [] p = (p = [])"
| "contains (c # s) p = (startsWith (c # s) p \<or> contains s p)"

text \<open>\<open>[a*="v"]\<close> holds of no element when \<open>v\<close> is empty.\<close>

fun holds :: "simple \<Rightarrow> props \<Rightarrow> bool" where
  "holds (Tag t) p = (tagName p = t)"
| "holds (Class c) p = (c \<in> set (classList p))"
| "holds (AttrEq a v) p = (attrs p a = Some v)"
| "holds (AttrHas a v) p =
     (case attrs p a of None \<Rightarrow> False | Some w \<Rightarrow> v \<noteq> [] \<and> contains w v)"
| "holds (Neg c) p = (\<not> holds c p)"

definition matches :: "selector \<Rightarrow> props \<Rightarrow> bool" where
  "matches sel p = list_ex (list_all (\<lambda>c. holds c p)) sel"

subsection \<open>The page\<close>

text \<open>
  Closures of the script are named by the place they are written at, together with the
  variables they close over: \<open>SearchSubmit input\<close> is the submit listener made for
  \<open>input\<close>. The value \<open>maxLength\<close> is the text of the \<open>maxlength\<close> attribute or, when that
  is missing or empty, the number 1000.
\<close>

datatype target = Window | Document | Node ref

datatype maxlen = MaxAttr jstring | MaxDefault

datatype handler =
    SearchInput ref | SearchSubmit ref | SlashKey
  | ReplyClick ref | CounterInput ref maxlen
  | ImageChange ref | RevokeURL ref
  | ScrollShow ref | ScrollClick | HoverIn ref | HoverOut ref
  | MetaInput ref ref

datatype callback = AutoHide ref | RemoveAlert ref

text \<open>
  The bodies of the listeners \<open>SearchSubmit\<close>, \<open>ReplyClick\<close>, \<open>ImageChange\<close> and
  \<open>ScrollShow\<close> and of the callbacks \<open>AutoHide\<close> and \<open>RemoveAlert\<close> are embedded
  below; the other closures appear as what the initialisers register.

  The state of the page: the document (\<open>shape\<close>, \<open>objs\<close>) and the next unused handle;
  the listeners registered, each with its target and event type; the callbacks
  handed to \<open>setTimeout\<close>, each with its delay in milliseconds; the element that
  \<open>focus()\<close> was last called on; the files for which an object URL has been made;
  the window's vertical scroll offset; and the alerts closed through the UI framework.
\<close>

record page =
  shape :: "tree list"
  objs :: "ref \<Rightarrow> props"
  fresh :: ref
  listeners :: "(target \<times> string \<times> handler) list"
  scheduled :: "(nat \<times> callback) list"
  activeElement :: "ref option"
  objectURLs :: "jstring list"
  scrollY :: real
  dismissed :: "ref list"

definition addEventListener :: "target \<Rightarrow> string \<Rightarrow> handler \<Rightarrow> page \<Rightarrow> page" where
  "addEventListener t ev h s = s\<lparr>listeners := listeners s @ [(t, ev, h)]\<rparr>"

definition schedule :: "callback \<Rightarrow> nat \<Rightarrow> page \<Rightarrow> page" where
  "schedule cb delay s = s\<lparr>scheduled := scheduled s @ [(delay, cb)]\<rparr>"

definition elements :: "tree list \<Rightarrow> ref list" where
  "elements ts = map ref_of (filter is_el (nodes ts))"

definition querySelectorAll :: "selector \<Rightarrow> page \<Rightarrow> ref list" where
  "querySelectorAll sel s = filter (\<lambda>r. matches sel (objs s r)) (elements (shape s))"

definition querySelector :: "selector \<Rightarrow> page \<Rightarrow> ref option" where
  "querySelector sel s = find (\<lambda>r. matches sel (objs s r)) (elements (shape s))"

text \<open>\<open>e.querySelector(sel)\<close>: the first match among the descendants of element \<open>e\<close>.\<close>

definition querySelector_of :: "ref \<Rightarrow> selector \<Rightarrow> page \<Rightarrow> ref option" where
  "querySelector_of e sel s =
     (case kids_of e (shape s) of
        None \<Rightarrow> None
      | Some ks \<Rightarrow> find (\<lambda>r. matches sel (objs s r)) (elements ks))"

definition getElementById :: "jstring \<Rightarrow> page \<Rightarrow> ref option" where
  "getElementById i s = find (\<lambda>r. attrs (objs s r) ''id'' = Some i) (elements (shape s))"

definition closest :: "selector \<Rightarrow> ref \<Rightarrow> page \<Rightarrow> ref option" where
  "closest sel r s =
     find (\<lambda>q. matches sel (objs s q))
       (r # (case ancestors r (shape s) of None \<Rightarrow> [] | Some as \<Rightarrow> as))"

definition nextElementSibling :: "ref \<Rightarrow> page \<Rightarrow> ref option" where
  "nextElementSibling r s =
     (case following r (shape s) of
        None \<Rightarrow> None
      | Some fs \<Rightarrow> map_option ref_of (find is_el fs))"

definition createElement :: "string \<Rightarrow> page \<Rightarrow> ref \<times> page" where
  "createElement t s =
     (fresh s,
      s\<lparr>objs := (objs s)(fresh s :=
           \<lparr>tagName = t, attrs = Map.empty, classList = [], style = Map.empty, val = []\<rparr>),
        fresh := Suc (fresh s)\<rparr>)"

definition update :: "ref \<Rightarrow> (props \<Rightarrow> props) \<Rightarrow> page \<Rightarrow> page" where
  "update r f s = s\<lparr>objs := (objs s)(r := f (objs s r))\<rparr>"

text \<open>
  The children that assigning the text \<open>t\<close> to \<open>textContent\<close> gives an element: a single
  new text node, or none when \<open>t\<close> is empty.
\<close>

definition text_kids :: "jstring \<Rightarrow> page \<Rightarrow> tree list \<times> page" where
  "text_kids t s =
     (if t = [] then ([], s)
      else ([Txt (fresh s)],
            s\<lparr>objs := (objs s)(fresh s :=
                 \<lparr>tagName = ''#text'', attrs = Map.empty, classList = [], style = Map.empty,
                  val = t\<rparr>),
              fresh := Suc (fresh s)\<rparr>))"

text \<open>
  What reading the \<open>value\<close> property of an element gives: a string for form controls
  and a few other elements, a number for \<open>li\<close>, \<open>meter\<close> and \<open>progress\<close>, and
  \<open>undefined\<close> for any other element.
\<close>

datatype jsvalue = Undefined | Str jstring | Num

definition value_of :: "props \<Rightarrow> jsvalue" where
  "value_of p =
     (if tagName p \<in> {''input'', ''textarea'', ''select'', ''button'', ''option'', ''output'',
                       ''data'', ''param''}
      then Str (val p)
      else if tagName p \<in> {''li'', ''meter'', ''progress''} then Num
      else Undefined)"

text \<open>
  \<open>document.body\<close>: the first \<open>body\<close> or \<open>frameset\<close> child of the document element when
  that is an \<open>html\<close> element, else \<open>null\<close>.
\<close>

definition body :: "page \<Rightarrow> ref option" where
  "body s =
     (case find is_el (shape s) of
        Some (El h ks) \<Rightarrow>
          (if tagName (objs s h) = ''html''
           then map_option ref_of
                  (find (\<lambda>k. is_el k \<and> tagName (objs s (ref_of k)) \<in> {''body'', ''frameset''}) ks)
           else None)
      | _ \<Rightarrow> None)"

subsection \<open>Search enhancement\<close>

definition search_inputs :: selector where
  "search_inputs =
     [[Tag ''input'', AttrEq ''type'' (js ''search'')], [Tag ''input'', AttrEq ''name'' (js ''q'')]]"

definition enhance :: "ref \<Rightarrow> page \<Rightarrow> page" where
  "enhance input s =
     (let s1 = addEventListener (Node input) ''input'' (SearchInput input) s
      in case closest [[Tag ''form'']] input s1 of
           None \<Rightarrow> s1
         | Some form \<Rightarrow> addEventListener (Node form) ''submit'' (SearchSubmit input) s1)"

definition initSearchEnhancement :: "page \<Rightarrow> page" where
  "initSearchEnhancement s =
     addEventListener Document ''keydown'' SlashKey
       (fold enhance (querySelectorAll search_inputs s) s)"

text \<open>
  \<open>trim\<close> removes white space and line terminators from both ends: the code units
  TAB, LF, VT, FF, CR, SPACE, NBSP, U+1680, U+2000 to U+200A, U+2028, U+2029, U+202F,
  U+205F, U+3000 and U+FEFF.
\<close>

definition isWhite :: "nat \<Rightarrow> bool" where
  "isWhite c =
     (c \<in> {9, 10, 11, 12, 13, 32, 160, 5760, 8232, 8233, 8239, 8287, 12288, 65279}
      \<or> (8192 \<le> c \<and> c \<le> 8202))"

definition trim :: "jstring \<Rightarrow> jstring" where
  "trim s = rev (dropWhile isWhite (rev (dropWhile isWhite s)))"

text \<open>
  The submit listener, run on a submit event of which \<open>prevented\<close> says whether its
  default action has been prevented already. It returns that flag as it leaves it.
  Calling \<open>trim\<close> on a value that is not a string throws a TypeError.
\<close>

definition searchSubmit :: "ref \<Rightarrow> bool \<Rightarrow> page \<Rightarrow> js_error + bool \<times> page" where
  "searchSubmit input prevented s =
     (case value_of (objs s input) of
        Str v \<Rightarrow>
          if trim v = [] then Inr (True, s\<lparr>activeElement := Some input\<rparr>)
          else Inr (prevented, s)
      | _ \<Rightarrow> Inl TypeError)"

subsection \<open>Comment system\<close>

definition toggle :: "jstring \<Rightarrow> jstring list \<Rightarrow> jstring list" where
  "toggle c cs = (if c \<in> set cs then removeAll c cs else cs @ [c])"

text \<open>
  The click listener of a reply button \<open>this\<close>. \<open>dataset.commentId\<close> is the attribute
  \<open>data-comment-id\<close>, and \<open>undefined\<close>, which concatenation renders as the text
  "undefined", where the button has none.
\<close>

definition replyClick :: "ref \<Rightarrow> page \<Rightarrow> page" where
  "replyClick this s =
     (let commentId =
            (case attrs (objs s this) ''data-comment-id'' of
               None \<Rightarrow> js ''undefined'' | Some v \<Rightarrow> v)
      in case getElementById (js ''reply-form-'' @ commentId) s of
           None \<Rightarrow> s
         | Some replyForm \<Rightarrow>
             (let s1 = update replyForm
                         (\<lambda>p. p\<lparr>classList := toggle (js ''d-none'') (classList p)\<rparr>) s
              in if js ''d-none'' \<notin> set (classList (objs s1 replyForm))
                 then (case querySelector_of replyForm
                              [[Tag ''input'', AttrEq ''name'' (js ''content'')]] s1 of
                         None \<Rightarrow> s1
                       | Some input \<Rightarrow> s1\<lparr>activeElement := Some input\<rparr>)
                 else s1))"

definition maxLength_of :: "props \<Rightarrow> maxlen" where
  "maxLength_of p =
     (case attrs p ''maxlength'' of
        None \<Rightarrow> MaxDefault
      | Some v \<Rightarrow> if v = [] then MaxDefault else MaxAttr v)"

definition render :: "maxlen \<Rightarrow> jstring" where
  "render m = (case m of MaxAttr v \<Rightarrow> v | MaxDefault \<Rightarrow> numToString 1000)"

text \<open>\<open>textarea.nextElementSibling?.classList.contains('char-counter')\<close>, as a truth value.\<close>

definition has_counter :: "ref \<Rightarrow> page \<Rightarrow> bool" where
  "has_counter textarea s =
     (case nextElementSibling textarea s of
        None \<Rightarrow> False
      | Some n \<Rightarrow> js ''char-counter'' \<in> set (classList (objs s n)))"

text \<open>
  The body of the loop over the comment textareas. \<open>parentNode\<close> is \<open>null\<close> for a node
  out of the document, and reading \<open>insertBefore\<close> of it throws a TypeError. The document
  node takes one element child only: inserting the counter there, beside the
  textarea, throws a HierarchyRequestError.
\<close>

definition attachCounter :: "ref \<Rightarrow> page \<Rightarrow> js_error + page" where
  "attachCounter textarea s =
     (let maxLength = maxLength_of (objs s textarea)
      in case (if \<not> has_counter textarea s then
                 (let (counter, s1) = createElement ''small'' s;
                      s2 = update counter
                             (\<lambda>p. p\<lparr>classList := [js ''char-counter'', js ''text-muted'',
                                                   js ''d-block'', js ''text-end'']\<rparr>) s1;
                      (ks, s3) = text_kids (js ''0/'' @ render maxLength) s2
                  in case ancestors textarea (shape s3) of
                       None \<Rightarrow> Inl TypeError
                     | Some [] \<Rightarrow> Inl HierarchyRequestError
                     | Some (parent # as) \<Rightarrow>
                         Inr (s3\<lparr>shape := insert_after textarea (El counter ks) (shape s3)\<rparr>))
               else Inr s) of
           Inl e \<Rightarrow> Inl e
         | Inr s4 \<Rightarrow>
             Inr (addEventListener (Node textarea) ''input''
                    (CounterInput textarea maxLength) s4))"

text \<open>\<open>forEach\<close> with a body that may throw: the first error ends the loop.\<close>

fun forEach :: "('a \<Rightarrow> page \<Rightarrow> js_error + page) \<Rightarrow> 'a list \<Rightarrow> page \<Rightarrow> js_error + page" where
  "forEach f [] s = Inr s"
| "forEach f (x # xs) s = (case f x s of Inl e \<Rightarrow> Inl e | Inr s1 \<Rightarrow> forEach f xs s1)"

definition comment_textareas :: selector where
  "comment_textareas = [[Tag ''textarea'', AttrEq ''name'' (js ''content'')]]"

definition initCommentSystem :: "page \<Rightarrow> js_error + page" where
  "initCommentSystem s =
     (let s1 = fold (\<lambda>btn. addEventListener (Node btn) ''click'' (ReplyClick btn))
                 (querySelectorAll [[Class (js ''reply-btn'')]] s) s
      in forEach attachCounter (querySelectorAll comment_textareas s1) s1)"

subsection \<open>Image preview\<close>

record upload =
  fileName :: jstring
  fileType :: jstring

definition image_inputs :: selector where
  "image_inputs = [[Tag ''input'', AttrEq ''type'' (js ''file''), AttrHas ''accept'' (js ''image'')]]"

definition initImagePreview :: "page \<Rightarrow> page" where
  "initImagePreview s =
     fold (\<lambda>input. addEventListener (Node input) ''change'' (ImageChange input))
       (querySelectorAll image_inputs s) s"

text \<open>The text of the \<open>n\<close>-th object URL that the page makes.\<close>

definition blob :: "nat \<Rightarrow> jstring" where
  "blob n = js ''blob:'' @ numToString (int n)"

text \<open>
  "Find or create preview element": the first \<open>.image-preview\<close> below the parent of the
  input \<open>this\<close>, or a new \<open>div\<close> appended to the parent.
\<close>

definition preview_of :: "ref \<Rightarrow> page \<Rightarrow> js_error + ref \<times> page" where
  "preview_of this s =
     (case ancestors this (shape s) of
        None \<Rightarrow> Inl TypeError
      | Some [] \<Rightarrow>
          (case querySelector [[Class (js ''image-preview'')]] s of
             Some preview \<Rightarrow> Inr (preview, s)
           | None \<Rightarrow> Inl HierarchyRequestError)
      | Some (parent # as) \<Rightarrow>
          (case querySelector_of parent [[Class (js ''image-preview'')]] s of
             Some preview \<Rightarrow> Inr (preview, s)
           | None \<Rightarrow>
               (let (preview, s1) = createElement ''div'' s;
                    s2 = update preview
                           (\<lambda>p. p\<lparr>classList := [js ''image-preview'', js ''mt-2'']\<rparr>) s1
                in Inr (preview,
                        s2\<lparr>shape := map_kids parent (\<lambda>ks. ks @ [El preview []]) (shape s2)\<rparr>))))"

text \<open>
  The change listener of an image input \<open>this\<close>, run with the files selected in it
  (\<open>e.target.files\<close>). The assignment to \<open>img.onload\<close> is recorded as a listener.
\<close>

definition imageChange :: "ref \<Rightarrow> upload list \<Rightarrow> page \<Rightarrow> js_error + page" where
  "imageChange this files s =
     (case files of
        [] \<Rightarrow> Inr s
      | file # rest \<Rightarrow>
          if startsWith (fileType file) (js ''image/'') then
            (case preview_of this s of
               Inl e \<Rightarrow> Inl e
             | Inr (preview, s1) \<Rightarrow>
                 (let (img, s2) = createElement ''img'' s1;
                      s3 = s2\<lparr>objectURLs := objectURLs s2 @ [fileName file]\<rparr>;
                      s4 = update img
                             (\<lambda>p. p\<lparr>attrs := (attrs p)(''src'' \<mapsto> blob (length (objectURLs s2))),
                                     classList := [js ''img-thumbnail''],
                                     style := (style p)(''max-height'' \<mapsto> ''200px'')\<rparr>) s3;
                      s5 = addEventListener (Node img) ''load'' (RevokeURL img) s4;
                      s6 = s5\<lparr>shape := map_kids preview (\<lambda>ks. [El img []]) (shape s5)\<rparr>;
                      (small, s7) = createElement ''small'' s6;
                      s8 = update small
                             (\<lambda>p. p\<lparr>classList := [js ''d-block'', js ''text-muted'', js ''mt-1'']\<rparr>)
                             s7;
                      (ks, s9) = text_kids (fileName file) s8
                  in Inr (s9\<lparr>shape :=
                            map_kids preview (\<lambda>cs. cs @ [El small ks]) (shape s9)\<rparr>)))
          else Inr s)"

subsection \<open>Scroll to top\<close>

definition initScrollToTop :: "page \<Rightarrow> js_error + page" where
  "initScrollToTop s =
     (let (button, s1) = createElement ''button'' s;
          (icon, s2) = createElement ''i'' s1;
          s3 = update icon (\<lambda>p. p\<lparr>classList := [js ''bi'', js ''bi-arrow-up'']\<rparr>) s2;
          s4 = update button
                 (\<lambda>p. p\<lparr>classList := [js ''btn'', js ''btn-primary'', js ''btn-scroll-top''],
                         attrs := (attrs p)(''aria-label'' \<mapsto> js ''Scroll to top''),
                         style := [''position'' \<mapsto> ''fixed'', ''bottom'' \<mapsto> ''20px'',
                                   ''right'' \<mapsto> ''20px'', ''width'' \<mapsto> ''45px'',
                                   ''height'' \<mapsto> ''45px'', ''border-radius'' \<mapsto> ''50%'',
                                   ''display'' \<mapsto> ''none'', ''z-index'' \<mapsto> ''1000'',
                                   ''opacity'' \<mapsto> ''0.8'',
                                   ''transition'' \<mapsto> ''opacity 0.2s'']\<rparr>) s3
      in case body s4 of
           None \<Rightarrow> Inl TypeError
         | Some b \<Rightarrow>
             (let s5 = s4\<lparr>shape := map_kids b (\<lambda>ks. ks @ [El button [El icon []]]) (shape s4)\<rparr>;
                  s6 = addEventListener Window ''scroll'' (ScrollShow button) s5;
                  s7 = addEventListener (Node button) ''click'' ScrollClick s6;
                  s8 = addEventListener (Node button) ''mouseenter'' (HoverIn button) s7
              in Inr (addEventListener (Node button) ''mouseleave'' (HoverOut button) s8)))"

text \<open>The scroll listener, closed over the button.\<close>

definition scrollShow :: "ref \<Rightarrow> page \<Rightarrow> page" where
  "scrollShow button s =
     (if scrollY s > 300
      then update button (\<lambda>p. p\<lparr>style := (style p)(''display'' \<mapsto> ''block'')\<rparr>) s
      else update button (\<lambda>p. p\<lparr>style := (style p)(''display'' \<mapsto> ''none'')\<rparr>) s)"

subsection \<open>Auto-hide alerts\<close>

definition alerts :: selector where
  "alerts = [[Class (js ''alert''), Neg (Class (js ''alert-permanent''))]]"

definition initAutoHideAlerts :: "page \<Rightarrow> page" where
  "initAutoHideAlerts s =
     fold (\<lambda>alert. schedule (AutoHide alert) 5000) (querySelectorAll alerts s) s"

text \<open>
  The global \<open>bootstrap\<close> of the UI framework: not defined when the framework has not
  been loaded; defined without its \<open>Alert\<close> component; or defined with it, and then
  \<open>getOrCreateInstance\<close> tells for an element whether it returns an instance (a truthy
  value). Closing an alert through its instance is recorded in \<open>dismissed\<close>.
\<close>

datatype framework = NotLoaded | NoAlert | Loaded "ref \<Rightarrow> bool"

definition autoHide :: "framework \<Rightarrow> ref \<Rightarrow> page \<Rightarrow> js_error + page" where
  "autoHide bootstrap alert s =
     (case bootstrap of
        NotLoaded \<Rightarrow> Inl ReferenceError
      | NoAlert \<Rightarrow> Inl TypeError
      | Loaded getOrCreateInstance \<Rightarrow>
          if getOrCreateInstance alert then Inr (s\<lparr>dismissed := dismissed s @ [alert]\<rparr>)
          else
            (let s1 = update alert
                        (\<lambda>p. p\<lparr>style := (style p)(''transition'' \<mapsto> ''opacity 0.3s'')\<rparr>) s;
                 s2 = update alert (\<lambda>p. p\<lparr>style := (style p)(''opacity'' \<mapsto> ''0'')\<rparr>) s1
             in Inr (schedule (RemoveAlert alert) 300 s2)))"

text \<open>The callback of the manual path: \<open>alert.remove()\<close>.\<close>

definition removeAlert :: "ref \<Rightarrow> page \<Rightarrow> page" where
  "removeAlert alert s = s\<lparr>shape := remove_node alert (shape s)\<rparr>"

subsection \<open>Character counters\<close>

text \<open>
  \<open>metaDesc.value.length\<close>: reading \<open>length\<close> of \<open>undefined\<close> throws a TypeError. A
  number has no \<open>length\<close>, and \<open>textContent\<close> takes the \<open>undefined\<close> assigned to it
  then as the empty text.
\<close>

definition initCharacterCounters :: "page \<Rightarrow> js_error + page" where
  "initCharacterCounters s =
     (case (getElementById (js ''id_meta_description'') s,
            getElementById (js ''meta-char-count'') s) of
        (Some metaDesc, Some charCount) \<Rightarrow>
          (case value_of (objs s metaDesc) of
             Undefined \<Rightarrow> Inl TypeError
           | v \<Rightarrow>
               (let (ks, s1) = text_kids
                      (case v of Str w \<Rightarrow> numToString (int (length w)) | _ \<Rightarrow> []) s;
                    s2 = s1\<lparr>shape := map_kids charCount (\<lambda>cs. ks) (shape s1)\<rparr>
                in Inr (addEventListener (Node metaDesc) ''input''
                          (MetaInput metaDesc charCount) s2)))
      | _ \<Rightarrow> Inr s)"

subsection \<open>Handles in use\<close>

text \<open>
  The handles of a forest, in document order. A page is \<open>allocated\<close> when every handle
  in its document is below \<open>fresh\<close>, so that a node just created is a new one.
\<close>

definition refs :: "tree list \<Rightarrow> ref list" where
  "refs ts = map ref_of (nodes ts)"

definition allocated :: "page \<Rightarrow> bool" where
  "allocated s = list_all (\<lambda>r. r < fresh s) (refs (shape s))"

subsection \<open>Two pages\<close>

text \<open>
  \<open>sample\<close> is a page with a search form, two alerts (one of them permanent), a comment
  textarea, a reply button and an image input; \<open>bare\<close> is a page with an empty body.
\<close>

definition element :: "string \<Rightarrow> (string \<times> jstring) list \<Rightarrow> jstring list \<Rightarrow> jstring \<Rightarrow> props" where
  "element t as cs v =
     \<lparr>tagName = t, attrs = map_of as, classList = cs, style = Map.empty, val = v\<rparr>"

definition sample_objs :: "ref \<Rightarrow> props" where
  "sample_objs =
     (\<lambda>r. element ''#text'' [] [] [])
       (10 := element ''html'' [] [] [],
        11 := element ''body'' [] [] [],
        12 := element ''form'' [] [] [],
        13 := element ''input'' [(''type'', js ''search''), (''name'', js ''q'')] [] (js ''  ''),
        14 := element ''div'' [] [js ''alert'', js ''alert-success''] [],
        15 := element ''div'' [] [js ''alert'', js ''alert-permanent''] [],
        16 := element ''textarea'' [(''name'', js ''content''), (''maxlength'', js ''500'')] [] [],
        18 := element ''button'' [(''data-comment-id'', js ''7'')] [js ''reply-btn''] [],
        19 := element ''input'' [(''type'', js ''file''), (''accept'', js ''image/*'')] [] [])"

definition sample :: page where
  "sample =
     \<lparr>shape = [El 10 [El 11 [El 12 [El 13 []], El 14 [], El 15 [], El 16 [], Txt 17, El 18 [],
                               El 19 []]]],
      objs = sample_objs, fresh = 20, listeners = [], scheduled = [], activeElement = None,
      objectURLs = [], scrollY = 0, dismissed = []\<rparr>"

definition bare :: page where
  "bare =
     \<lparr>shape = [El 10 [El 11 []]],
      objs = (\<lambda>r. element ''#text'' [] [] [])
               (10 := element ''html'' [] [] [], 11 := element ''body'' [] [] []),
      fresh = 12, listeners = [], scheduled = [], activeElement = None,
      objectURLs = [], scrollY = 0, dismissed = []\<rparr>"

section \<open>Properties\<close>

subsection \<open>Properties of timeAgo\<close>

lemma digits_small: "n < 10 \<Longrightarrow> digits n = [48 + n]"
  by (simp add: digits.simps)

text \<open>
  Claim C1. For every current time \<open>now\<close> and every locale rendering, a date that lies
  30 seconds before \<open>now\<close> is rendered "just now", one 5 minutes before "5 minutes ago",
  one 2 hours before "2 hours ago", one 3 days before "3 days ago", and one 10 days before
  is rendered by the locale's date rendering of that date (deltas in milliseconds).
\<close>

theorem timeAgo_fixed_deltas:
  "timeAgo fmt now (Some (now - 30 * 1000)) = js ''just now'' \<and>
   timeAgo fmt now (Some (now - 5 * 60 * 1000)) = js ''5 minutes ago'' \<and>
   timeAgo fmt now (Some (now - 2 * 60 * 60 * 1000)) = js ''2 hours ago'' \<and>
   timeAgo fmt now (Some (now - 3 * 24 * 60 * 60 * 1000)) = js ''3 days ago'' \<and>
   timeAgo fmt now (Some (now - 10 * 24 * 60 * 60 * 1000)) = fmt (now - 10 * 24 * 60 * 60 * 1000)"
  by (simp add: timeAgo_def Let_def numToString_def plural_def digits_small js_def)

subsection \<open>Properties of debounce\<close>












subsection \<open>Properties of copyToClipboard\<close>

text \<open>
  Claim C3. For every text and every clipboard, the promise that \<open>copyToClipboard\<close>
  returns resolves: no error reaches the caller. When the clipboard write fails with
  an error, that error is logged to the console by the one \<open>catch\<close> path, as the only
  console entry added, and \<open>writeText\<close> has been called at most once: nothing is retried.
\<close>

theorem copyToClipboard_contains_failure:
  "fst (copyToClipboard nav text w) = Inr () \<and>
   length (written (snd (copyToClipboard nav text w))) \<le> Suc (length (written w)) \<and>
   (\<forall>err. fst (writeText nav text w) = Inl err \<longrightarrow>
      console (snd (copyToClipboard nav text w)) =
        console w @ [ConsoleError (js ''Failed to copy:'') err])"
  by (cases nav)
    (auto simp: copyToClipboard_def writeText_def console_log_def console_error_def
      split: option.splits)

theorem copyToClipboard_contains_failure_witness:
  "fst (writeText (Clipboard (\<lambda>t. Some (DOMException (js ''NotAllowedError''))))
      (js ''post-url'') \<lparr>console = [], written = []\<rparr>)
     = Inl (DOMException (js ''NotAllowedError'')) \<and>
   fst (copyToClipboard (Clipboard (\<lambda>t. Some (DOMException (js ''NotAllowedError''))))
      (js ''post-url'') \<lparr>console = [], written = []\<rparr>) = Inr () \<and>
   console (snd (copyToClipboard (Clipboard (\<lambda>t. Some (DOMException (js ''NotAllowedError''))))
      (js ''post-url'') \<lparr>console = [], written = []\<rparr>))
     = [ConsoleError (js ''Failed to copy:'') (DOMException (js ''NotAllowedError''))]"
  using copyToClipboard_contains_failure
    [of "Clipboard (\<lambda>t. Some (DOMException (js ''NotAllowedError'')))" "js ''post-url''"
      "\<lparr>console = [], written = []\<rparr>"]
  by (simp add: writeText_def)

subsection \<open>Properties of the tree operations\<close>

lemma nodes_append: "nodes (as @ bs) = nodes as @ nodes bs"
  by (induction as rule: nodes.induct) simp_all

lemma elements_simps:
  "elements [] = []"
  "elements (Txt r # ts) = elements ts"
  "elements (El r ks # ts) = r # elements ks @ elements ts"
  by (simp_all add: elements_def)

lemma refs_simps:
  "refs [] = []"
  "refs (Txt r # ts) = r # refs ts"
  "refs (El r ks # ts) = r # refs ks @ refs ts"
  by (simp_all add: refs_def)

lemma elements_append: "elements (as @ bs) = elements as @ elements bs"
  by (simp add: elements_def nodes_append)

lemma refs_append: "refs (as @ bs) = refs as @ refs bs"
  by (simp add: refs_def nodes_append)

lemma elements_Cons: "elements (t # ts) = elements [t] @ elements ts"
  using elements_append [of "[t]" ts] by simp

lemma refs_Cons: "refs (t # ts) = refs [t] @ refs ts"
  using refs_append [of "[t]" ts] by simp

lemma refs_insert_after:
  "set (refs (insert_after r new ts)) \<subseteq> set (refs ts) \<union> set (refs [new])"
proof (induction r new ts rule: insert_after.induct)
  case (1 r new)
  then show ?case by simp
next
  case (2 r new q ts)
  then show ?case using refs_Cons [of new "insert_after r new ts"]
    by (auto simp: refs_simps)
next
  case (3 r new q ks ts)
  then show ?case using refs_Cons [of new "insert_after r new ts"]
    by (auto simp: refs_simps)
qed

lemma elements_insert_after:
  "\<forall>x \<in> set (elements [new]). \<not> P x \<Longrightarrow>
   filter P (elements (insert_after r new ts)) = filter P (elements ts)"
proof (induction r new ts rule: insert_after.induct)
  case (1 r new)
  then show ?case by simp
next
  case (2 r new q ts)
  then show ?case using elements_Cons [of new "insert_after r new ts"]
    by (simp add: elements_simps)
next
  case (3 r new q ks ts)
  then show ?case using elements_Cons [of new "insert_after r new ts"]
    by (simp add: elements_simps)
qed

lemma following_insert_same:
  "following r (insert_after r new ts)
     = map_option (\<lambda>fs. new # insert_after r new fs) (following r ts)"
  by (induction r new ts rule: insert_after.induct) (auto split: option.splits)

lemma following_None_iff: "following r ts = None \<longleftrightarrow> r \<notin> set (refs ts)"
  by (induction r ts rule: following.induct) (auto simp: refs_simps split: option.splits)

lemma following_insert_other:
  "r \<noteq> t \<Longrightarrow> r \<notin> set (refs [new]) \<Longrightarrow>
   following r (insert_after t new ts) = map_option (insert_after t new) (following r ts)"
proof (induction t new ts rule: insert_after.induct)
  case (1 t new)
  then show ?case by simp
next
  case (2 t new q ts)
  then have "following r [new] = None" by (simp add: following_None_iff)
  with 2 show ?case by (cases new) (auto split: option.splits)
next
  case (3 t new q ks ts)
  then have "following r [new] = None" by (simp add: following_None_iff)
  with 3 show ?case by (cases new) (auto split: option.splits)
qed

lemma following_refs:
  "following r ts = Some fs \<Longrightarrow> set (refs fs) \<subseteq> set (refs ts)"
  by (induction r ts rule: following.induct) (auto simp: refs_simps split: option.splits if_splits)

lemma mem_refs: "n \<in> set ts \<Longrightarrow> ref_of n \<in> set (refs ts)"
proof (induction ts)
  case Nil
  then show ?case by simp
next
  case (Cons t ts)
  then show ?case using refs_Cons [of t ts] by (cases t) (auto simp: refs_simps)
qed

lemma first_element_insert_after:
  "is_el new \<Longrightarrow> find is_el fs = Some n \<Longrightarrow>
   \<exists>m. find is_el (insert_after t new fs) = Some m \<and> (ref_of m = ref_of n \<or> m = new)"
  by (induction t new fs rule: insert_after.induct) (auto split: if_splits)

lemma ancestors_None_iff: "ancestors r ts = None \<longleftrightarrow> r \<notin> set (refs ts)"
  by (induction r ts rule: ancestors.induct) (auto simp: refs_simps split: option.splits)

lemma elements_subset_refs: "set (elements ts) \<subseteq> set (refs ts)"
  by (auto simp: elements_def refs_def)

lemma allocatedD: "allocated s \<Longrightarrow> r \<in> set (refs (shape s)) \<Longrightarrow> r < fresh s"
  by (simp add: allocated_def list_all_iff)

lemma find_SomeD: "find P xs = Some x \<Longrightarrow> P x \<and> x \<in> set xs"
  by (induction xs) (auto split: if_splits)

lemma kids_refs: "El h ks \<in> set ts \<Longrightarrow> set (refs ks) \<subseteq> set (refs ts)"
proof (induction ts)
  case Nil
  then show ?case by simp
next
  case (Cons t ts)
  then show ?case using refs_Cons [of t ts] by (auto simp: refs_simps)
qed

subsection \<open>The two pages, evaluated\<close>

lemma sample_objs_simps:
  "sample_objs 10 = element ''html'' [] [] []"
  "sample_objs 11 = element ''body'' [] [] []"
  "sample_objs 12 = element ''form'' [] [] []"
  "sample_objs 13 = element ''input'' [(''type'', js ''search''), (''name'', js ''q'')] [] (js ''  '')"
  "sample_objs 14 = element ''div'' [] [js ''alert'', js ''alert-success''] []"
  "sample_objs 15 = element ''div'' [] [js ''alert'', js ''alert-permanent''] []"
  "sample_objs 16 = element ''textarea'' [(''name'', js ''content''), (''maxlength'', js ''500'')] [] []"
  "sample_objs 17 = element ''#text'' [] [] []"
  "sample_objs 18 = element ''button'' [(''data-comment-id'', js ''7'')] [js ''reply-btn''] []"
  "sample_objs 19 = element ''input'' [(''type'', js ''file''), (''accept'', js ''image/*'')] [] []"
  by (simp_all add: sample_objs_def)

lemma sample_simps:
  "shape sample = [El 10 [El 11 [El 12 [El 13 []], El 14 [], El 15 [], El 16 [], Txt 17, El 18 [], El 19 []]]]"
  "objs sample = sample_objs" "fresh sample = 20" "listeners sample = []" "scheduled sample = []"
  by (simp_all add: sample_def)

lemma allocated_sample: "allocated sample"
  by (simp add: allocated_def refs_simps sample_simps)

lemma bare_simps:
  "shape bare = [El 10 [El 11 []]]" "fresh bare = 12" "listeners bare = []"
  "objs bare 10 = element ''html'' [] [] []" "objs bare 11 = element ''body'' [] [] []"
  by (simp_all add: bare_def)

lemma body_sample: "body sample = Some 11"
  by (simp add: body_def sample_simps sample_objs_simps element_def)

subsection \<open>Properties of the alerts\<close>

lemma fold_schedule:
  "scheduled (fold (\<lambda>r. schedule (f r) d) rs s) = scheduled s @ map (\<lambda>r. (d, f r)) rs"
  by (induction rs arbitrary: s) (simp_all add: schedule_def)

lemma matches_alerts:
  "matches alerts p =
     (js ''alert'' \<in> set (classList p) \<and> js ''alert-permanent'' \<notin> set (classList p))"
  by (simp add: matches_def alerts_def)

text \<open>
  Claim C4. What \<open>initAutoHideAlerts\<close> hands to \<open>setTimeout\<close> is, in document order,
  one \<open>AutoHide\<close> callback with a delay of 5000 milliseconds for each element of the
  document that has the class \<open>alert\<close> and not the class \<open>alert-permanent\<close>, and
  nothing else: no element with the class \<open>alert-permanent\<close> is scheduled.
\<close>

theorem alerts_scheduled:
  "scheduled (initAutoHideAlerts s) =
     scheduled s @
     map (\<lambda>r. (5000, AutoHide r))
       (filter (\<lambda>r. js ''alert'' \<in> set (classList (objs s r)) \<and>
                     js ''alert-permanent'' \<notin> set (classList (objs s r)))
          (elements (shape s)))"
  by (simp add: initAutoHideAlerts_def fold_schedule querySelectorAll_def matches_alerts)

theorem alerts_scheduled_witness:
  "scheduled (initAutoHideAlerts sample) = [(5000, AutoHide 14)]"
  by (simp add: alerts_scheduled elements_def sample_simps sample_objs_simps element_def js_def)

text \<open>
  Claim C5 says that the callback tests whether the framework's alert instance is
  available before it calls \<open>close\<close>, and that without one it does not throw but takes
  the manual fade-and-remove path. The code does not do so where the framework itself is
  missing: the callback reads \<open>bootstrap.Alert.getOrCreateInstance\<close> before it tests
  anything, so where \<open>bootstrap\<close> is not defined, or has no \<open>Alert\<close> component, it
  throws and never reaches the manual path.
\<close>

theorem autoHide_framework_missing:
  "autoHide NotLoaded alert s = Inl ReferenceError \<and> autoHide NoAlert alert s = Inl TypeError"
  by (simp add: autoHide_def)

text \<open>
  Where the framework is loaded the callback does not throw: it closes the alert through
  the instance, or takes the manual path when \<open>getOrCreateInstance\<close> returns nothing.
\<close>

lemma autoHide_loaded:
  "autoHide (Loaded get) alert s =
     (if get alert then Inr (s\<lparr>dismissed := dismissed s @ [alert]\<rparr>)
      else Inr (schedule (RemoveAlert alert) 300
             (update alert (\<lambda>p. p\<lparr>style := (style p)(''opacity'' \<mapsto> ''0'')\<rparr>)
               (update alert (\<lambda>p. p\<lparr>style := (style p)(''transition'' \<mapsto> ''opacity 0.3s'')\<rparr>) s))))"
  by (simp add: autoHide_def Let_def)

subsection \<open>Properties of the scroll-to-top button\<close>

lemma initScrollToTop_listeners:
  "initScrollToTop s = Inr s1 \<Longrightarrow>
   listeners s1 = listeners s @
     [(Window, ''scroll'', ScrollShow (fresh s)), (Node (fresh s), ''click'', ScrollClick),
      (Node (fresh s), ''mouseenter'', HoverIn (fresh s)),
      (Node (fresh s), ''mouseleave'', HoverOut (fresh s))]"
  by (auto simp: initScrollToTop_def Let_def createElement_def update_def addEventListener_def
      split: option.splits)

text \<open>
  Claim C7. The scroll listener that \<open>initScrollToTop\<close> registers on the window is the one
  closed over the button it has made, and after that listener has run, on any page
  state \<open>p\<close>, the button's \<open>display\<close> style is \<open>block\<close> if and only if the window's
  vertical scroll offset exceeds 300, and \<open>none\<close> if and only if it does not.
\<close>

theorem scroll_button_visibility:
  "initScrollToTop s = Inr s1 \<Longrightarrow>
   (Window, ''scroll'', ScrollShow (fresh s)) \<in> set (listeners s1) \<and>
   (\<forall>p. (style (objs (scrollShow (fresh s) p) (fresh s)) ''display'' = Some ''block'')
            = (scrollY p > 300) \<and>
        (style (objs (scrollShow (fresh s) p) (fresh s)) ''display'' = Some ''none'')
            = (\<not> scrollY p > 300))"
  by (simp add: initScrollToTop_listeners scrollShow_def update_def)

lemma sample_scroll_init: "\<exists>s1. initScrollToTop sample = Inr s1"
  by (simp add: initScrollToTop_def Let_def createElement_def update_def body_def
      sample_simps sample_objs_simps element_def)

theorem scroll_button_visibility_witness:
  "\<exists>s1. initScrollToTop sample = Inr s1 \<and>
     (Window, ''scroll'', ScrollShow 20) \<in> set (listeners s1) \<and>
     style (objs (scrollShow 20 (s1\<lparr>scrollY := 450.5\<rparr>)) 20) ''display'' = Some ''block'' \<and>
     style (objs (scrollShow 20 (s1\<lparr>scrollY := 300\<rparr>)) 20) ''display'' = Some ''none''"
proof -
  from sample_scroll_init obtain s1 where s1: "initScrollToTop sample = Inr s1" by auto
  from scroll_button_visibility [OF s1] s1 show ?thesis
    by (auto simp: sample_simps)
qed

subsection \<open>Properties of the search form\<close>

lemma enhance_frame: "shape (enhance i s) = shape s" "objs (enhance i s) = objs s"
  by (simp_all add: enhance_def Let_def addEventListener_def split: option.splits)

lemma closest_frame:
  "shape s' = shape s \<Longrightarrow> objs s' = objs s \<Longrightarrow> closest sel r s' = closest sel r s"
  by (simp add: closest_def)

lemma closest_listeners: "closest sel r (s\<lparr>listeners := ls\<rparr>) = closest sel r s"
  by (simp add: closest_def)

lemma enhance_mono: "set (listeners s) \<subseteq> set (listeners (enhance i s))"
  by (auto simp: enhance_def Let_def addEventListener_def split: option.splits)

lemma fold_enhance_mono: "set (listeners s) \<subseteq> set (listeners (fold enhance xs s))"
proof (induction xs arbitrary: s)
  case Nil
  then show ?case by simp
next
  case (Cons x xs)
  then show ?case using enhance_mono [of s x] by fastforce
qed

lemma enhance_registers:
  "closest [[Tag ''form'']] i s = Some f \<Longrightarrow>
   (Node f, ''submit'', SearchSubmit i) \<in> set (listeners (enhance i s))"
  by (simp add: enhance_def Let_def closest_listeners addEventListener_def)

lemma fold_enhance_registers:
  "i \<in> set xs \<Longrightarrow> closest [[Tag ''form'']] i s = Some f \<Longrightarrow>
   (Node f, ''submit'', SearchSubmit i) \<in> set (listeners (fold enhance xs s))"
proof (induction xs arbitrary: s)
  case Nil
  then show ?case by simp
next
  case (Cons x xs)
  show ?case
  proof (cases "i = x")
    case True
    with Cons.prems have "(Node f, ''submit'', SearchSubmit i) \<in> set (listeners (enhance x s))"
      by (simp add: enhance_registers)
    then show ?thesis using fold_enhance_mono [of "enhance x s" xs] by auto
  next
    case False
    with Cons.prems have "i \<in> set xs" by simp
    moreover have "closest [[Tag ''form'']] i (enhance x s) = Some f"
      using Cons.prems(2) by (simp add: closest_frame [OF enhance_frame])
    ultimately show ?thesis using Cons.IH by simp
  qed
qed

lemma search_input_tag: "matches search_inputs p \<Longrightarrow> tagName p = ''input''"
  by (auto simp: matches_def search_inputs_def)

text \<open>
  Claim C8. For every search input that \<open>initSearchEnhancement\<close> finds inside a form,
  the listener \<open>SearchSubmit input\<close> is registered for the submit event of that form;
  and when it runs on a submit event not yet prevented, in any later state \<open>s2\<close> of the
  page, the event's default action is prevented if and only if the input's value is
  empty after trimming, in which case \<open>focus()\<close> is called on the input; for a
  non-blank value the event and the page are left as they are.
\<close>

theorem search_submit_blank:
  "input \<in> set (querySelectorAll search_inputs s) \<Longrightarrow>
   closest [[Tag ''form'']] input s = Some form \<Longrightarrow>
   tagName (objs s2 input) = tagName (objs s input) \<Longrightarrow>
   (Node form, ''submit'', SearchSubmit input) \<in> set (listeners (initSearchEnhancement s)) \<and>
   searchSubmit input False s2 =
     Inr (trim (val (objs s2 input)) = [],
          if trim (val (objs s2 input)) = [] then s2\<lparr>activeElement := Some input\<rparr> else s2)"
proof -
  assume a: "input \<in> set (querySelectorAll search_inputs s)"
    and f: "closest [[Tag ''form'']] input s = Some form"
    and t: "tagName (objs s2 input) = tagName (objs s input)"
  from a have "tagName (objs s input) = ''input''"
    by (simp add: querySelectorAll_def search_input_tag)
  with t have v: "value_of (objs s2 input) = Str (val (objs s2 input))"
    by (simp add: value_of_def)
  have "(Node form, ''submit'', SearchSubmit input)
      \<in> set (listeners (fold enhance (querySelectorAll search_inputs s) s))"
    using a f by (rule fold_enhance_registers)
  then have "(Node form, ''submit'', SearchSubmit input) \<in> set (listeners (initSearchEnhancement s))"
    by (simp add: initSearchEnhancement_def addEventListener_def)
  moreover have "searchSubmit input False s2 =
     Inr (trim (val (objs s2 input)) = [],
          if trim (val (objs s2 input)) = [] then s2\<lparr>activeElement := Some input\<rparr> else s2)"
    by (simp add: searchSubmit_def v)
  ultimately show ?thesis by simp
qed

lemma sample_search: "querySelectorAll search_inputs sample = [13]"
  by (simp add: querySelectorAll_def elements_def sample_simps sample_objs_simps element_def
      js_def search_inputs_def matches_def)

lemma sample_closest: "closest [[Tag ''form'']] 13 sample = Some 12"
  by (simp add: closest_def sample_simps sample_objs_simps element_def js_def matches_def)

lemma trim_blank: "trim (js ''  '') = []"
  by (simp add: trim_def js_def isWhite_def)

lemma trim_query: "trim (js '' django '') = js ''django''"
  by (simp add: trim_def js_def isWhite_def)

theorem search_submit_blank_witness:
  "13 \<in> set (querySelectorAll search_inputs sample) \<and>
   closest [[Tag ''form'']] 13 sample = Some 12 \<and>
   (Node 12, ''submit'', SearchSubmit 13) \<in> set (listeners (initSearchEnhancement sample)) \<and>
   searchSubmit 13 False sample = Inr (True, sample\<lparr>activeElement := Some 13\<rparr>) \<and>
   searchSubmit 13 False (update 13 (\<lambda>p. p\<lparr>val := js '' django ''\<rparr>) sample)
     = Inr (False, update 13 (\<lambda>p. p\<lparr>val := js '' django ''\<rparr>) sample)"
  using search_submit_blank [of 13 sample 12 sample]
    search_submit_blank [of 13 sample 12 "update 13 (\<lambda>p. p\<lparr>val := js '' django ''\<rparr>) sample"]
  by (simp add: sample_search sample_closest update_def sample_simps sample_objs_simps
      element_def trim_blank trim_query) (simp add: js_def)

subsection \<open>Properties of the image preview\<close>

text \<open>
  Claim C10. When no file is selected, or the type of the first selected file does not
  start with \<open>image/\<close>, the change listener leaves the whole page as it is: the
  document, the handles, the listeners and the object URLs made.
\<close>

theorem image_change_frame:
  "files = [] \<or> \<not> startsWith (fileType (hd files)) (js ''image/'') \<Longrightarrow>
   imageChange this files s = Inr s"
  by (cases files) (auto simp: imageChange_def)

theorem image_change_frame_witness:
  "imageChange 19 [] sample = Inr sample \<and>
   \<not> startsWith (js ''text/plain'') (js ''image/'') \<and>
   imageChange 19 [\<lparr>fileName = js ''notes.txt'', fileType = js ''text/plain''\<rparr>] sample = Inr sample"
  using image_change_frame [of "[]" 19 sample]
    image_change_frame [of "[\<lparr>fileName = js ''notes.txt'', fileType = js ''text/plain''\<rparr>]" 19 sample]
  by (simp add: js_def)

subsection \<open>Properties of the comment counters\<close>

lemma has_counterD:
  assumes "has_counter r s"
  obtains fs n where "following r (shape s) = Some fs" "find is_el fs = Some n"
    "js ''char-counter'' \<in> set (classList (objs s (ref_of n)))"
  using assms by (auto simp: has_counter_def nextElementSibling_def split: option.splits)

lemma has_counterI:
  "following r (shape s) = Some fs \<Longrightarrow> find is_el fs = Some n \<Longrightarrow>
   js ''char-counter'' \<in> set (classList (objs s (ref_of n))) \<Longrightarrow> has_counter r s"
  by (simp add: has_counter_def nextElementSibling_def)

lemma has_counter_frame:
  "shape s' = shape s \<Longrightarrow> objs s' = objs s \<Longrightarrow> has_counter r s' = has_counter r s"
  by (simp add: has_counter_def nextElementSibling_def split: option.splits)

lemma attachCounter_present:
  "has_counter t s \<Longrightarrow>
   attachCounter t s =
     Inr (addEventListener (Node t) ''input'' (CounterInput t (maxLength_of (objs s t))) s)"
  by (simp add: attachCounter_def Let_def)

text \<open>What a step that makes a counter leaves behind.\<close>

lemma attachCounter_absent:
  assumes "\<not> has_counter t s" "attachCounter t s = Inr s'"
  shows "t \<in> set (refs (shape s))"
    and "shape s' = insert_after t (El (fresh s) [Txt (Suc (fresh s))]) (shape s)"
    and "\<And>r. r < fresh s \<Longrightarrow> objs s' r = objs s r"
    and "js ''char-counter'' \<in> set (classList (objs s' (fresh s)))"
    and "tagName (objs s' (fresh s)) = ''small''"
    and "fresh s' = Suc (Suc (fresh s))"
proof -
  from assms obtain p as where anc: "ancestors t (shape s) = Some (p # as)"
    by (auto simp: attachCounter_def Let_def createElement_def update_def text_kids_def js_def
        split: option.splits list.splits)
  then show "t \<in> set (refs (shape s))"
    using ancestors_None_iff [of t "shape s"] by auto
  from assms anc have s': "s' = addEventListener (Node t) ''input''
      (CounterInput t (maxLength_of (objs s t)))
      (s\<lparr>objs := (objs s)
            (fresh s := \<lparr>tagName = ''small'', attrs = Map.empty,
                         classList = [js ''char-counter'', js ''text-muted'',
                                      js ''d-block'', js ''text-end''],
                         style = Map.empty, val = []\<rparr>,
             Suc (fresh s) := \<lparr>tagName = ''#text'', attrs = Map.empty, classList = [],
                               style = Map.empty,
                               val = js ''0/'' @ render (maxLength_of (objs s t))\<rparr>),
          fresh := Suc (Suc (fresh s)),
          shape := insert_after t (El (fresh s) [Txt (Suc (fresh s))]) (shape s)\<rparr>)"
    by (auto simp: attachCounter_def Let_def createElement_def update_def text_kids_def js_def
        split: option.splits list.splits)
  show "shape s' = insert_after t (El (fresh s) [Txt (Suc (fresh s))]) (shape s)"
    by (simp add: s' addEventListener_def)
  show "\<And>r. r < fresh s \<Longrightarrow> objs s' r = objs s r"
    by (simp add: s' addEventListener_def)
  show "js ''char-counter'' \<in> set (classList (objs s' (fresh s)))"
    by (simp add: s' addEventListener_def)
  show "tagName (objs s' (fresh s)) = ''small''"
    by (simp add: s' addEventListener_def)
  show "fresh s' = Suc (Suc (fresh s))"
    by (simp add: s' addEventListener_def)
qed

lemma matches_textarea: "matches comment_textareas p \<Longrightarrow> tagName p = ''textarea''"
  by (simp add: matches_def comment_textareas_def)

lemma attachCounter_step:
  assumes "allocated s" "attachCounter t s = Inr s'"
  shows "allocated s'"
    and "has_counter t s'"
    and "\<And>r. has_counter r s \<Longrightarrow> has_counter r s'"
    and "querySelectorAll comment_textareas s' = querySelectorAll comment_textareas s"
proof -
  let ?new = "El (fresh s) [Txt (Suc (fresh s))]"
  have goal: "allocated s' \<and> has_counter t s' \<and> (\<forall>r. has_counter r s \<longrightarrow> has_counter r s') \<and>
      querySelectorAll comment_textareas s' = querySelectorAll comment_textareas s"
  proof (cases "has_counter t s")
    case True
    with assms(2) have s': "s' = addEventListener (Node t) ''input''
        (CounterInput t (maxLength_of (objs s t))) s"
      by (simp add: attachCounter_present)
    have fr: "shape s' = shape s" "objs s' = objs s" "fresh s' = fresh s"
      by (simp_all add: s' addEventListener_def)
    show ?thesis
      using assms(1) True
      by (simp add: has_counter_frame [OF fr(1) fr(2)] allocated_def fr querySelectorAll_def)
  next
    case False
    note a = attachCounter_absent [OF False assms(2)]
    have refs_new: "refs [?new] = [fresh s, Suc (fresh s)]"
      by (simp add: refs_simps)
    have alloc: "allocated s'"
      unfolding allocated_def list_all_iff
    proof
      fix r assume "r \<in> set (refs (shape s'))"
      then have "r \<in> set (refs (shape s)) \<union> set (refs [?new])"
        using refs_insert_after [of t ?new "shape s"] a(2) by auto
      then show "r < fresh s'"
        using allocatedD [OF assms(1), of r] a(6) refs_new by (auto simp: less_Suc_eq)
    qed
    have here: "has_counter t s'"
    proof -
      from a(1) obtain fs where fs: "following t (shape s) = Some fs"
        using following_None_iff [of t "shape s"] by auto
      have "following t (shape s') = Some (?new # insert_after t ?new fs)"
        by (simp add: a(2) following_insert_same fs)
      moreover have "find is_el (?new # insert_after t ?new fs) = Some ?new" by simp
      moreover have "js ''char-counter'' \<in> set (classList (objs s' (ref_of ?new)))"
        by (simp add: a(4))
      ultimately show ?thesis by (rule has_counterI)
    qed
    have keep: "has_counter r s'" if r: "has_counter r s" for r
    proof -
      from r obtain fs n where fs: "following r (shape s) = Some fs"
        and n: "find is_el fs = Some n"
        and c: "js ''char-counter'' \<in> set (classList (objs s (ref_of n)))"
        by (rule has_counterD)
      from r False have "r \<noteq> t" by auto
      have "r \<in> set (refs (shape s))"
        using fs following_None_iff [of r "shape s"] by auto
      then have "r < fresh s" by (rule allocatedD [OF assms(1)])
      then have "r \<notin> set (refs [?new])" by (simp add: refs_new)
      with \<open>r \<noteq> t\<close> have f': "following r (shape s') = Some (insert_after t ?new fs)"
        by (simp add: a(2) following_insert_other fs)
      from n obtain m where m: "find is_el (insert_after t ?new fs) = Some m"
        and alt: "ref_of m = ref_of n \<or> m = ?new"
        using first_element_insert_after [of ?new fs n t] by auto
      have "js ''char-counter'' \<in> set (classList (objs s' (ref_of m)))"
      proof (cases "m = ?new")
        case True
        then show ?thesis by (simp add: a(4))
      next
        case False
        with alt have eq: "ref_of m = ref_of n" by simp
        have "n \<in> set fs" using n by (auto simp: find_Some_iff)
        then have "ref_of n \<in> set (refs fs)" by (rule mem_refs)
        then have "ref_of n \<in> set (refs (shape s))" using following_refs [OF fs] by auto
        then have "ref_of n < fresh s" by (rule allocatedD [OF assms(1)])
        then show ?thesis using c eq by (simp add: a(3))
      qed
      with f' m show ?thesis by (rule has_counterI)
    qed
    have qsa: "querySelectorAll comment_textareas s' = querySelectorAll comment_textareas s"
    proof -
      have "\<forall>x \<in> set (elements [?new]). \<not> matches comment_textareas (objs s' x)"
        using matches_textarea [of "objs s' (fresh s)"] a(5) by (auto simp: elements_simps)
      then have "filter (\<lambda>r. matches comment_textareas (objs s' r)) (elements (shape s'))
          = filter (\<lambda>r. matches comment_textareas (objs s' r)) (elements (shape s))"
        unfolding a(2) by (rule elements_insert_after)
      also have "\<dots> = filter (\<lambda>r. matches comment_textareas (objs s r)) (elements (shape s))"
      proof (rule filter_cong [OF refl])
        fix r assume "r \<in> set (elements (shape s))"
        then have "r < fresh s"
          using elements_subset_refs [of "shape s"] allocatedD [OF assms(1)] by auto
        then show "matches comment_textareas (objs s' r) = matches comment_textareas (objs s r)"
          by (simp add: a(3))
      qed
      finally show ?thesis by (simp add: querySelectorAll_def)
    qed
    from alloc here keep qsa show ?thesis by simp
  qed
  from goal show "allocated s'" by simp
  from goal show "has_counter t s'" by simp
  from goal show "\<And>r. has_counter r s \<Longrightarrow> has_counter r s'" by simp
  from goal show "querySelectorAll comment_textareas s' = querySelectorAll comment_textareas s"
    by simp
qed

lemma forEach_attachCounter:
  "allocated s \<Longrightarrow> forEach attachCounter ts s = Inr s' \<Longrightarrow>
   allocated s' \<and> (\<forall>r \<in> set ts. has_counter r s') \<and>
   (\<forall>r. has_counter r s \<longrightarrow> has_counter r s') \<and>
   querySelectorAll comment_textareas s' = querySelectorAll comment_textareas s"
proof (induction ts arbitrary: s)
  case Nil
  then show ?case by simp
next
  case (Cons t ts)
  from Cons.prems(2) obtain s1 where s1: "attachCounter t s = Inr s1"
    and rest: "forEach attachCounter ts s1 = Inr s'"
    by (auto split: sum.splits)
  note step = attachCounter_step [OF Cons.prems(1) s1]
  from Cons.IH [OF step(1) rest] step show ?case by auto
qed

lemma forEach_attachCounter_present:
  "\<forall>r \<in> set ts. has_counter r s \<Longrightarrow>
   \<exists>ls. forEach attachCounter ts (s\<lparr>listeners := l0\<rparr>) = Inr (s\<lparr>listeners := ls\<rparr>)"
proof (induction ts arbitrary: l0)
  case Nil
  then show ?case by auto
next
  case (Cons t ts)
  let ?s = "s\<lparr>listeners := l0\<rparr>"
  have "has_counter t ?s" using Cons.prems by (simp add: has_counter_frame [of ?s s])
  then have "attachCounter t ?s =
      Inr (s\<lparr>listeners := l0 @ [(Node t, ''input'', CounterInput t (maxLength_of (objs s t)))]\<rparr>)"
    by (simp add: attachCounter_present addEventListener_def)
  moreover from Cons obtain ls where
    "forEach attachCounter ts
       (s\<lparr>listeners := l0 @ [(Node t, ''input'', CounterInput t (maxLength_of (objs s t)))]\<rparr>)
     = Inr (s\<lparr>listeners := ls\<rparr>)"
    by fastforce
  ultimately show ?case by auto
qed

lemma fold_addEventListener:
  "fold (\<lambda>x. addEventListener (t x) ev (h x)) xs s
     = s\<lparr>listeners := listeners s @ map (\<lambda>x. (t x, ev, h x)) xs\<rparr>"
  by (induction xs arbitrary: s) (simp_all add: addEventListener_def)

lemma querySelectorAll_frame:
  "querySelectorAll sel (s\<lparr>listeners := ls\<rparr>) = querySelectorAll sel s"
  by (simp add: querySelectorAll_def)

lemma allocated_frame: "allocated (s\<lparr>listeners := ls\<rparr>) = allocated s"
  by (simp add: allocated_def)

text \<open>
  Claim C9. The loop body makes no counter for a textarea whose next element sibling is
  a \<open>char-counter\<close>: it only registers the input listener. And when \<open>initCommentSystem\<close>
  has run on a page, running it again succeeds and leaves the document, the node
  properties and the handles as they are (only listeners are added): no second counter
  is made for any textarea.
\<close>

theorem counters_idempotent:
  "(has_counter t s \<longrightarrow>
      attachCounter t s =
        Inr (addEventListener (Node t) ''input'' (CounterInput t (maxLength_of (objs s t))) s)) \<and>
   (allocated s \<and> initCommentSystem s = Inr s1 \<longrightarrow>
      (\<exists>ls. initCommentSystem s1 = Inr (s1\<lparr>listeners := ls\<rparr>)))"
proof (intro conjI impI)
  assume "has_counter t s"
  then show "attachCounter t s =
      Inr (addEventListener (Node t) ''input'' (CounterInput t (maxLength_of (objs s t))) s)"
    by (rule attachCounter_present)
next
  assume a: "allocated s \<and> initCommentSystem s = Inr s1"
  let ?btn = "\<lambda>s. fold (\<lambda>btn. addEventListener (Node btn) ''click'' (ReplyClick btn))
                 (querySelectorAll [[Class (js ''reply-btn'')]] s) s"
  obtain l0 where s0: "?btn s = s\<lparr>listeners := l0\<rparr>"
    using fold_addEventListener [of Node "''click''" ReplyClick _ s] by simp
  from a have run1: "forEach attachCounter (querySelectorAll comment_textareas s)
      (s\<lparr>listeners := l0\<rparr>) = Inr s1"
    by (simp add: initCommentSystem_def Let_def s0 querySelectorAll_frame)
  from a have "allocated (s\<lparr>listeners := l0\<rparr>)" by (simp add: allocated_frame)
  from forEach_attachCounter [OF this run1]
  have all: "\<forall>r \<in> set (querySelectorAll comment_textareas s1). has_counter r s1"
    by (simp add: querySelectorAll_frame)
  obtain l1 where s1: "?btn s1 = s1\<lparr>listeners := l1\<rparr>"
    using fold_addEventListener [of Node "''click''" ReplyClick _ s1] by simp
  from forEach_attachCounter_present [OF all, of l1]
  show "\<exists>ls. initCommentSystem s1 = Inr (s1\<lparr>listeners := ls\<rparr>)"
    by (simp add: initCommentSystem_def Let_def s1 querySelectorAll_frame)
qed

lemma sample_first_run:
  "\<exists>s1. initCommentSystem sample = Inr s1 \<and> has_counter 16 s1"
  by (simp add: initCommentSystem_def Let_def querySelectorAll_def elements_def sample_simps
    sample_objs_simps element_def matches_def comment_textareas_def attachCounter_def
    has_counter_def nextElementSibling_def createElement_def update_def text_kids_def js_def
    addEventListener_def maxLength_of_def render_def)

theorem counters_idempotent_witness:
  "allocated sample \<and>
   (\<exists>s1. initCommentSystem sample = Inr s1 \<and> has_counter 16 s1 \<and>
      attachCounter 16 s1 =
        Inr (addEventListener (Node 16) ''input'' (CounterInput 16 (maxLength_of (objs s1 16))) s1) \<and>
      (\<exists>ls. initCommentSystem s1 = Inr (s1\<lparr>listeners := ls\<rparr>)))"
proof -
  from sample_first_run obtain s1 where s1: "initCommentSystem sample = Inr s1"
    and c: "has_counter 16 s1" by auto
  from counters_idempotent [of 16 s1] counters_idempotent [of 16 sample s1] c s1 allocated_sample
  show ?thesis by auto
qed

subsection \<open>Properties of the initialisers where their targets are absent\<close>

lemma body_frame:
  assumes "allocated s" "shape s' = shape s" "\<And>r. r < fresh s \<Longrightarrow> objs s' r = objs s r"
  shows "body s' = body s"
proof (cases "find is_el (shape s)")
  case None
  then show ?thesis by (simp add: body_def assms(2))
next
  case (Some n)
  then have n: "n \<in> set (shape s)" "is_el n" by (auto dest: find_SomeD)
  from n(2) obtain h ks where hk: "n = El h ks" by (cases n) auto
  have "h \<in> set (refs (shape s))" using mem_refs [OF n(1)] hk by simp
  then have h: "objs s' h = objs s h" using allocatedD [OF assms(1)] assms(3) by simp
  have "find (\<lambda>k. is_el k \<and> tagName (objs s' (ref_of k)) \<in> {''body'', ''frameset''}) ks
      = find (\<lambda>k. is_el k \<and> tagName (objs s (ref_of k)) \<in> {''body'', ''frameset''}) ks"
  proof (rule find_cong [OF refl])
    fix k assume "k \<in> set ks"
    then have "ref_of k \<in> set (refs ks)" by (rule mem_refs)
    then have "ref_of k \<in> set (refs (shape s))" using kids_refs [of h ks "shape s"] n(1) hk by auto
    then have "objs s' (ref_of k) = objs s (ref_of k)"
      using allocatedD [OF assms(1)] assms(3) by simp
    then show "(is_el k \<and> tagName (objs s' (ref_of k)) \<in> {''body'', ''frameset''})
        = (is_el k \<and> tagName (objs s (ref_of k)) \<in> {''body'', ''frameset''})" by simp
  qed
  with Some hk h show ?thesis by (simp add: body_def assms(2))
qed

lemma initScrollToTop_body:
  assumes "allocated s" "body s = Some b"
  shows "\<exists>s1. initScrollToTop s = Inr s1 \<and>
           shape s1 = map_kids b (\<lambda>ks. ks @ [El (fresh s) [El (Suc (fresh s)) []]]) (shape s) \<and>
           (\<forall>r. r < fresh s \<longrightarrow> objs s1 r = objs s r)"
proof -
  let ?s4 = "update (fresh s)
      (\<lambda>p. p\<lparr>classList := [js ''btn'', js ''btn-primary'', js ''btn-scroll-top''],
              attrs := (attrs p)(''aria-label'' \<mapsto> js ''Scroll to top''),
              style := [''position'' \<mapsto> ''fixed'', ''bottom'' \<mapsto> ''20px'',
                        ''right'' \<mapsto> ''20px'', ''width'' \<mapsto> ''45px'',
                        ''height'' \<mapsto> ''45px'', ''border-radius'' \<mapsto> ''50%'',
                        ''display'' \<mapsto> ''none'', ''z-index'' \<mapsto> ''1000'',
                        ''opacity'' \<mapsto> ''0.8'',
                        ''transition'' \<mapsto> ''opacity 0.2s'']\<rparr>)
      (update (Suc (fresh s)) (\<lambda>p. p\<lparr>classList := [js ''bi'', js ''bi-arrow-up'']\<rparr>)
        (snd (createElement ''i'' (snd (createElement ''button'' s)))))"
  have fr: "shape ?s4 = shape s" "\<And>r. r < fresh s \<Longrightarrow> objs ?s4 r = objs s r"
    by (simp_all add: update_def createElement_def)
  have "body ?s4 = Some b" using body_frame [OF assms(1) fr] assms(2) by simp
  then show ?thesis
    by (simp add: initScrollToTop_def Let_def createElement_def update_def addEventListener_def)
qed

text \<open>
  Claim C6. On a page where its target elements are absent, each initialiser raises no
  error and leaves the document as it is. Without search inputs \<open>initSearchEnhancement\<close>
  adds the keydown listener only. Without comment textareas \<open>initCommentSystem\<close>
  changes nothing but the listeners, and nothing at all when there are no reply
  buttons either; the click listener of a reply button does nothing when the element
  \<open>reply-form-<id>\<close> does not exist. Without image inputs \<open>initImagePreview\<close> does
  nothing, and so does \<open>initAutoHideAlerts\<close> without alerts to hide, and
  \<open>initCharacterCounters\<close> unless both \<open>id_meta_description\<close> and \<open>meta-char-count\<close>
  exist. \<open>initScrollToTop\<close> looks up no element but \<open>document.body\<close>: where the
  page has one, it succeeds, appends its new button to the body and leaves the
  properties of every node that was there untouched.
\<close>

theorem absent_targets_guarded:
  "(querySelectorAll search_inputs s = [] \<longrightarrow>
      initSearchEnhancement s = addEventListener Document ''keydown'' SlashKey s) \<and>
   (querySelectorAll comment_textareas s = [] \<longrightarrow>
      (\<exists>ls. initCommentSystem s = Inr (s\<lparr>listeners := ls\<rparr>))) \<and>
   (querySelectorAll [[Class (js ''reply-btn'')]] s = [] \<and>
    querySelectorAll comment_textareas s = [] \<longrightarrow> initCommentSystem s = Inr s) \<and>
   (getElementById
      (js ''reply-form-'' @
         (case attrs (objs s btn) ''data-comment-id'' of None \<Rightarrow> js ''undefined'' | Some v \<Rightarrow> v))
      s = None \<longrightarrow> replyClick btn s = s) \<and>
   (querySelectorAll image_inputs s = [] \<longrightarrow> initImagePreview s = s) \<and>
   (allocated s \<and> body s = Some b \<longrightarrow>
      (\<exists>s1. initScrollToTop s = Inr s1 \<and>
         shape s1 = map_kids b (\<lambda>ks. ks @ [El (fresh s) [El (Suc (fresh s)) []]]) (shape s) \<and>
         (\<forall>r. r < fresh s \<longrightarrow> objs s1 r = objs s r))) \<and>
   (querySelectorAll alerts s = [] \<longrightarrow> initAutoHideAlerts s = s) \<and>
   (getElementById (js ''id_meta_description'') s = None \<or>
    getElementById (js ''meta-char-count'') s = None \<longrightarrow> initCharacterCounters s = Inr s)"
proof (intro conjI impI)
  assume "querySelectorAll search_inputs s = []"
  then show "initSearchEnhancement s = addEventListener Document ''keydown'' SlashKey s"
    by (simp add: initSearchEnhancement_def)
next
  assume "querySelectorAll comment_textareas s = []"
  then show "\<exists>ls. initCommentSystem s = Inr (s\<lparr>listeners := ls\<rparr>)"
    by (simp add: initCommentSystem_def Let_def fold_addEventListener querySelectorAll_frame)
      (rule exI, rule refl)
next
  assume "querySelectorAll [[Class (js ''reply-btn'')]] s = [] \<and>
    querySelectorAll comment_textareas s = []"
  then show "initCommentSystem s = Inr s"
    by (simp add: initCommentSystem_def Let_def)
next
  assume "getElementById
      (js ''reply-form-'' @
         (case attrs (objs s btn) ''data-comment-id'' of None \<Rightarrow> js ''undefined'' | Some v \<Rightarrow> v))
      s = None"
  then show "replyClick btn s = s"
    by (simp add: replyClick_def Let_def)
next
  assume "querySelectorAll image_inputs s = []"
  then show "initImagePreview s = s" by (simp add: initImagePreview_def)
next
  assume "allocated s \<and> body s = Some b"
  then show "\<exists>s1. initScrollToTop s = Inr s1 \<and>
         shape s1 = map_kids b (\<lambda>ks. ks @ [El (fresh s) [El (Suc (fresh s)) []]]) (shape s) \<and>
         (\<forall>r. r < fresh s \<longrightarrow> objs s1 r = objs s r)"
    using initScrollToTop_body [of s b] by simp
next
  assume "querySelectorAll alerts s = []"
  then show "initAutoHideAlerts s = s" by (simp add: initAutoHideAlerts_def)
next
  assume "getElementById (js ''id_meta_description'') s = None \<or>
    getElementById (js ''meta-char-count'') s = None"
  then show "initCharacterCounters s = Inr s"
    by (auto simp: initCharacterCounters_def split: option.splits)
qed

lemma bare_queries:
  "querySelectorAll search_inputs bare = []"
  "querySelectorAll comment_textareas bare = []"
  "querySelectorAll [[Class (js ''reply-btn'')]] bare = []"
  "querySelectorAll image_inputs bare = []"
  "querySelectorAll alerts bare = []"
  "getElementById (js ''id_meta_description'') bare = None"
  "getElementById (js ''reply-form-'' @ js ''undefined'') bare = None"
  "getElementById (js ''meta-char-count'') bare = None"
  "allocated bare" "body bare = Some 11"
  by (simp_all add: querySelectorAll_def getElementById_def elements_def bare_simps element_def
      matches_def search_inputs_def comment_textareas_def image_inputs_def alerts_def
      allocated_def refs_simps body_def)

theorem absent_targets_guarded_witness:
  "initSearchEnhancement bare = addEventListener Document ''keydown'' SlashKey bare \<and>
   initCommentSystem bare = Inr bare \<and>
   replyClick 11 bare = bare \<and>
   initImagePreview bare = bare \<and>
   (\<exists>s1. initScrollToTop bare = Inr s1 \<and>
      shape s1 = [El 10 [El 11 [El 12 [El 13 []]]]] \<and> objs s1 11 = objs bare 11) \<and>
   initAutoHideAlerts bare = bare \<and>
   initCharacterCounters bare = Inr bare"
  using absent_targets_guarded [of bare 11 11]
  by (auto simp: bare_queries bare_simps element_def)

end
